theory Spec2Isabelle
  imports Complex_Main "HOL-Library.Word"
begin

section \<open>Numbers: float64 with exact finite arithmetic\<close>

text \<open>
  The configurations of \<^verbatim>\<open>engine/config.go\<close> compute on Go's \<^verbatim>\<open>float64\<close>. The model
  keeps the three kinds of value the code can tell apart: a finite number, an infinity
  with its sign, and not-a-number. Finite numbers are real numbers and the operations on
  them are exact (no rounding, no overflow, one zero that divides like \<^verbatim>\<open>+0\<close>); the
  special values follow IEEE 754 as Go implements it: \<^verbatim>\<open>0/0\<close>, \<^verbatim>\<open>Inf-Inf\<close>,
  \<^verbatim>\<open>0*Inf\<close> and every operation on a NaN give NaN, \<^verbatim>\<open>a/0\<close> for \<^verbatim>\<open>a\<close> other than zero is
  an infinity with the sign of \<^verbatim>\<open>a\<close>.
\<close>

datatype float64 = Fin real | Infty bool | NaN
  \<comment> \<open>\<open>Infty False\<close> is \<^verbatim>\<open>+Inf\<close>, \<open>Infty True\<close> is \<^verbatim>\<open>-Inf\<close>\<close>

instantiation float64 :: "{plus, minus, uminus, times, inverse, ord}"
begin

fun uminus_float64 :: "float64 \<Rightarrow> float64" where
  "uminus_float64 (Fin a) = Fin (- a)"
| "uminus_float64 (Infty s) = Infty (\<not> s)"
| "uminus_float64 NaN = NaN"

fun plus_float64 :: "float64 \<Rightarrow> float64 \<Rightarrow> float64" where
  "plus_float64 (Fin a) (Fin b) = Fin (a + b)"
| "plus_float64 (Fin a) (Infty t) = Infty t"
| "plus_float64 (Infty s) (Fin b) = Infty s"
| "plus_float64 (Infty s) (Infty t) = (if s = t then Infty s else NaN)"
| "plus_float64 NaN _ = NaN"
| "plus_float64 _ NaN = NaN"

definition minus_float64 :: "float64 \<Rightarrow> float64 \<Rightarrow> float64" where
  "minus_float64 a b = a + (- b)"

fun times_float64 :: "float64 \<Rightarrow> float64 \<Rightarrow> float64" where
  "times_float64 (Fin a) (Fin b) = Fin (a * b)"
| "times_float64 (Fin a) (Infty t) = (if a = 0 then NaN else Infty (t \<noteq> (a < 0)))"
| "times_float64 (Infty s) (Fin b) = (if b = 0 then NaN else Infty (s \<noteq> (b < 0)))"
| "times_float64 (Infty s) (Infty t) = Infty (s \<noteq> t)"
| "times_float64 NaN _ = NaN"
| "times_float64 _ NaN = NaN"

fun divide_float64 :: "float64 \<Rightarrow> float64 \<Rightarrow> float64" where
  "divide_float64 (Fin a) (Fin b) =
     (if b = 0 then (if a = 0 then NaN else Infty (a < 0)) else Fin (a / b))"
| "divide_float64 (Fin a) (Infty t) = Fin 0"
| "divide_float64 (Infty s) (Fin b) = Infty (s \<noteq> (b < 0))"
| "divide_float64 (Infty s) (Infty t) = NaN"
| "divide_float64 NaN _ = NaN"
| "divide_float64 _ NaN = NaN"

definition inverse_float64 :: "float64 \<Rightarrow> float64" where
  "inverse_float64 a = divide (Fin 1) a"

fun less_float64 :: "float64 \<Rightarrow> float64 \<Rightarrow> bool" where
  "less_float64 (Fin a) (Fin b) = (a < b)"
| "less_float64 (Fin a) (Infty t) = (\<not> t)"
| "less_float64 (Infty s) (Fin b) = s"
| "less_float64 (Infty s) (Infty t) = (s \<and> \<not> t)"
| "less_float64 NaN _ = False"
| "less_float64 _ NaN = False"

fun less_eq_float64 :: "float64 \<Rightarrow> float64 \<Rightarrow> bool" where
  "less_eq_float64 (Fin a) (Fin b) = (a \<le> b)"
| "less_eq_float64 (Fin a) (Infty t) = (\<not> t)"
| "less_eq_float64 (Infty s) (Fin b) = s"
| "less_eq_float64 (Infty s) (Infty t) = (if t then s else True)"
| "less_eq_float64 NaN _ = False"
| "less_eq_float64 _ NaN = False"

instance ..

end

text \<open>The functions of Go's \<^verbatim>\<open>math\<close> package that the configurations call.\<close>

definition math_Pi :: float64 where
  "math_Pi = Fin pi"

fun math_IsNaN :: "float64 \<Rightarrow> bool" where
  "math_IsNaN NaN = True"
| "math_IsNaN _ = False"

fun math_Sqrt :: "float64 \<Rightarrow> float64" where
  "math_Sqrt (Fin a) = (if a < 0 then NaN else Fin (sqrt a))"
| "math_Sqrt (Infty s) = (if s then NaN else Infty False)"
| "math_Sqrt NaN = NaN"

fun math_Exp :: "float64 \<Rightarrow> float64" where
  "math_Exp (Fin a) = Fin (exp a)"
| "math_Exp (Infty s) = (if s then Fin 0 else Infty False)"
| "math_Exp NaN = NaN"

fun math_Abs :: "float64 \<Rightarrow> float64" where
  "math_Abs (Fin a) = Fin \<bar>a\<bar>"
| "math_Abs (Infty s) = Infty False"
| "math_Abs NaN = NaN"

fun math_Sin :: "float64 \<Rightarrow> float64" where
  "math_Sin (Fin a) = Fin (sin a)"
| "math_Sin _ = NaN"

fun math_Cos :: "float64 \<Rightarrow> float64" where
  "math_Cos (Fin a) = Fin (cos a)"
| "math_Cos _ = NaN"

fun math_Acos :: "float64 \<Rightarrow> float64" where
  "math_Acos (Fin a) = (if - 1 \<le> a \<and> a \<le> 1 then Fin (arccos a) else NaN)"
| "math_Acos _ = NaN"

definition float64_of_int :: "int \<Rightarrow> float64" where
  \<comment> \<open>the conversion \<^verbatim>\<open>float64(n)\<close> of a Go \<^verbatim>\<open>int\<close>\<close>
  "float64_of_int n = Fin (of_int n)"

section \<open>Vectors and configurations\<close>

text \<open>
  \<^verbatim>\<open>data.Vector\<close> is an array of three \<^verbatim>\<open>float64\<close>, indexed by \<^verbatim>\<open>X\<close>, \<^verbatim>\<open>Y\<close>, \<^verbatim>\<open>Z\<close>.
\<close>

datatype Vector = Vector (X: float64) (Y: float64) (Z: float64)

text \<open>
  A \<^verbatim>\<open>Config\<close> is a Go closure from a position to a vector. A closure may own mutable
  state (the random configuration owns a generator), so a call takes the state the
  closure has captured and returns it with the vector. The configurations that capture
  only immutable values hand the state back untouched.
\<close>

type_synonym 's Config = "float64 \<Rightarrow> float64 \<Rightarrow> float64 \<Rightarrow> 's \<Rightarrow> Vector \<times> 's"

definition sqr64 :: "float64 \<Rightarrow> float64" where
  \<comment> \<open>Modelled from the spec: the helper \<^verbatim>\<open>sqr64\<close> is declared outside the two source
      files; the spec writes its uses as squares (\<^verbatim>\<open>cellSizeX^2\<close>, \<^verbatim>\<open>(x/ww)^2\<close>).\<close>
  "sqr64 a = a * a"

definition MAdd :: "Vector \<Rightarrow> float64 \<Rightarrow> Vector \<Rightarrow> Vector" where
  \<comment> \<open>Modelled from the spec: the method \<^verbatim>\<open>Vector.MAdd\<close> of package \<^verbatim>\<open>data\<close> is not among
      the source files; the spec gives superposition as \<^verbatim>\<open>field(p) + weight*other(p)\<close>,
      component-wise.\<close>
  "MAdd v s b = Vector (X v + s * X b) (Y v + s * Y b) (Z v + s * Z b)"

definition noNaN :: "Vector \<Rightarrow> int \<Rightarrow> Vector" where
  "noNaN v pol =
     (if math_IsNaN (X v) \<or> math_IsNaN (Y v) \<or> math_IsNaN (Z v)
      then Vector (Fin 0) (Fin 0) (float64_of_int pol)
      else v)"

definition Uniform :: "float64 \<Rightarrow> float64 \<Rightarrow> float64 \<Rightarrow> 's Config" where
  "Uniform mx my mz = (\<lambda>x y z s. (Vector mx my mz, s))"

text \<open>
  The generators below read \<^verbatim>\<open>Mesh().CellSize()[X]\<close> once, when the closure is built.
  The mesh is not part of the source files, so the cell size is the first argument
  \<open>cellSizeX\<close> of the model.
\<close>

definition Vortex :: "float64 \<Rightarrow> int \<Rightarrow> int \<Rightarrow> 's Config" where
  "Vortex cellSizeX circ pol =
     (let diam2 = Fin 2 * sqr64 cellSizeX in
      (\<lambda>x y z s.
        let r2 = x * x + y * y;
            r = math_Sqrt r2;
            mx = - y * float64_of_int circ / r;
            my = x * float64_of_int circ / r;
            mz = Fin 1.5 * float64_of_int pol * math_Exp (- r2 / diam2)
        in (noNaN (Vector mx my mz) pol, s)))"

definition NeelSkyrmion :: "float64 \<Rightarrow> int \<Rightarrow> int \<Rightarrow> 's Config" where
  "NeelSkyrmion cellSizeX charge pol =
     (let w = Fin 8 * cellSizeX;
          w2 = w * w in
      (\<lambda>x y z s.
        let r2 = x * x + y * y;
            r = math_Sqrt r2;
            mz = Fin 2 * float64_of_int pol * (math_Exp (- r2 / w2) - Fin 0.5);
            mx = (x * float64_of_int charge / r) * (Fin 1 - math_Abs mz);
            my = (y * float64_of_int charge / r) * (Fin 1 - math_Abs mz)
        in (noNaN (Vector mx my mz) pol, s)))"

definition BlochSkyrmion :: "float64 \<Rightarrow> int \<Rightarrow> int \<Rightarrow> 's Config" where
  "BlochSkyrmion cellSizeX charge pol =
     (let w = Fin 8 * cellSizeX;
          w2 = w * w in
      (\<lambda>x y z s.
        let r2 = x * x + y * y;
            r = math_Sqrt r2;
            mz = Fin 2 * float64_of_int pol * (math_Exp (- r2 / w2) - Fin 0.5);
            mx = (- y * float64_of_int charge / r) * (Fin 1 - math_Abs mz);
            my = (x * float64_of_int charge / r) * (Fin 1 - math_Abs mz)
        in (noNaN (Vector mx my mz) pol, s)))"

definition AntiVortex :: "float64 \<Rightarrow> int \<Rightarrow> int \<Rightarrow> 's Config" where
  "AntiVortex cellSizeX circ pol =
     (let diam2 = Fin 2 * sqr64 cellSizeX in
      (\<lambda>x y z s.
        let r2 = x * x + y * y;
            r = math_Sqrt r2;
            mx = - x * float64_of_int circ / r;
            my = y * float64_of_int circ / r;
            mz = Fin 1.5 * float64_of_int pol * math_Exp (- r2 / diam2)
        in (noNaN (Vector mx my mz) pol, s)))"

text \<open>
  \<^verbatim>\<open>VortexWall\<close> reads \<^verbatim>\<open>Mesh().WorldSize()[Y]\<close> as well: the argument \<open>worldSizeY\<close>.
\<close>

definition VortexWall :: "float64 \<Rightarrow> float64 \<Rightarrow> float64 \<Rightarrow> float64 \<Rightarrow> int \<Rightarrow> int \<Rightarrow> 's Config" where
  "VortexWall cellSizeX worldSizeY mleft mright circ pol =
     (let h = worldSizeY;
          v = Vortex cellSizeX circ pol in
      (\<lambda>x y z s.
        if x < - h / Fin 2 then (Vector mleft (Fin 0) (Fin 0), s)
        else if h / Fin 2 < x then (Vector mright (Fin 0) (Fin 0), s)
        else v x y z s))"

definition TwoDomain ::
  "float64 \<Rightarrow> float64 \<Rightarrow> float64 \<Rightarrow> float64 \<Rightarrow>
   (float64 \<Rightarrow> float64 \<Rightarrow> float64 \<Rightarrow>
    (float64 \<Rightarrow> float64 \<Rightarrow> float64 \<Rightarrow> 's Config))" where
  \<comment> \<open>the cell size and the left domain, the wall, the right domain\<close>
  "TwoDomain cellSizeX mx1 my1 mz1 mxwall mywall mzwall mx2 my2 mz2 =
     (let ww = Fin 2 * cellSizeX in
      (\<lambda>x y z s.
        let m = (if x < Fin 0 then Vector mx1 my1 mz1 else Vector mx2 my2 mz2);
            gauss = math_Exp (- sqr64 (x / ww));
            m = Vector ((Fin 1 - gauss) * X m + gauss * mxwall) (Y m) (Z m);
            m = Vector (X m) ((Fin 1 - gauss) * Y m + gauss * mywall) (Z m);
            m = Vector (X m) (Y m) ((Fin 1 - gauss) * Z m + gauss * mzwall)
        in (m, s)))"

text \<open>
  \<^verbatim>\<open>HelicalMag\<close> computes the rotation \<^verbatim>\<open>cos_theta\<close>, \<^verbatim>\<open>sin_theta\<close> and the rotated
  coordinate \<^verbatim>\<open>u\<close> in local variables; they are functions of their own here, under the
  names of the source, so that statements can speak about them.
\<close>

definition HelicalMag_cos_theta :: "float64 \<Rightarrow> float64 \<Rightarrow> float64" where
  "HelicalMag_cos_theta qx qy =
     (let q_norm = math_Sqrt (qx * qx + qy * qy);
          q_x = qx / q_norm
      in q_x)"

definition HelicalMag_sin_theta :: "float64 \<Rightarrow> float64 \<Rightarrow> float64" where
  "HelicalMag_sin_theta qx qy = math_Sin (math_Acos (HelicalMag_cos_theta qx qy))"

definition HelicalMag_u :: "float64 \<Rightarrow> float64 \<Rightarrow> float64 \<Rightarrow> float64 \<Rightarrow> float64" where
  "HelicalMag_u qx qy x y =
     HelicalMag_cos_theta qx qy * x + HelicalMag_sin_theta qx qy * y"

definition HelicalMag :: "float64 \<Rightarrow> float64 \<Rightarrow> float64 \<Rightarrow> 's Config" where
  "HelicalMag Ld qx qy =
     (\<lambda>x y z s.
        let cos_theta = HelicalMag_cos_theta qx qy;
            sin_theta = HelicalMag_sin_theta qx qy;
            u = HelicalMag_u qx qy x y;
            m_v = math_Cos (Fin 2 * math_Pi * u / Ld);
            m = Vector (sin_theta * m_v) (cos_theta * m_v)
                       (math_Sin (Fin 2 * math_Pi * u / Ld))
        in (m, s))"

subsection \<open>Combinators\<close>

definition Transl :: "'s Config \<Rightarrow> float64 \<Rightarrow> float64 \<Rightarrow> float64 \<Rightarrow> 's Config" where
  "Transl c dx dy dz = (\<lambda>x y z s. c (x - dx) (y - dy) (z - dz) s)"

definition Scale :: "'s Config \<Rightarrow> float64 \<Rightarrow> float64 \<Rightarrow> float64 \<Rightarrow> 's Config" where
  "Scale c sx sy sz = (\<lambda>x y z s. c (x / sx) (y / sy) (z / sz) s)"

definition RotZ :: "'s Config \<Rightarrow> float64 \<Rightarrow> 's Config" where
  "RotZ c \<theta> =
     (let cos = math_Cos \<theta>;
          sin = math_Sin \<theta> in
      (\<lambda>x y z s.
        let x' = x * cos + y * sin;
            y' = - x * sin + y * cos;
            (m, s') = c x' y' z s;
            mx' = X m * cos - Y m * sin;
            my' = X m * sin + Y m * cos
        in (Vector mx' my' (Z m), s')))"

text \<open>
  \<^verbatim>\<open>c(x, y, z).MAdd(weight, other(x, y, z))\<close>: Go evaluates the receiver's call before
  the argument's call, so \<open>c\<close> runs first on the captured state and \<open>other\<close> second.
\<close>

definition Add :: "'s Config \<Rightarrow> float64 \<Rightarrow> 's Config \<Rightarrow> 's Config" where
  "Add c weight other =
     (\<lambda>x y z s.
        let (a, s1) = c x y z s;
            (b, s2) = other x y z s1
        in (MAdd a weight b, s2))"

subsection \<open>Random configurations\<close>

text \<open>
  \<^verbatim>\<open>math/rand\<close> is Go's standard library. The model takes it as a parameter: the state
  \<open>'r\<close> of a generator, the state \<^verbatim>\<open>rand.New(rand.NewSource(seed))\<close> starts in, and
  \<^verbatim>\<open>Float64\<close>, which returns a number and advances the state.
\<close>

record 'r rand =
  NewSource :: "int \<Rightarrow> 'r"
  Float64 :: "'r \<Rightarrow> float64 \<times> 'r"

definition randomDir :: "'r rand \<Rightarrow> 'r \<Rightarrow> Vector \<times> 'r" where
  "randomDir R rng =
     (let (f1, rng) = Float64 R rng;
          theta = Fin 2 * f1 * math_Pi;
          (f2, rng) = Float64 R rng;
          z = Fin 2 * (f2 - Fin 0.5);
          b = math_Sqrt (Fin 1 - z * z);
          x = b * math_Cos theta;
          y = b * math_Sin theta
      in (Vector x y z, rng))"

text \<open>
  \<^verbatim>\<open>RandomMagSeed\<close> creates the generator and returns a closure that captures it: the
  model returns the closure together with the generator's first state.
\<close>

definition RandomMagSeed :: "'r rand \<Rightarrow> int \<Rightarrow> 'r Config \<times> 'r" where
  "RandomMagSeed R seed =
     (let rng = NewSource R seed
      in ((\<lambda>x y z rng. randomDir R rng), rng))"

definition RandomMag :: "'r rand \<Rightarrow> 'r Config \<times> 'r" where
  "RandomMag R = RandomMagSeed R 0"

text \<open>
  The engine samples a configuration once per cell. \<open>sample\<close> is that caller: it calls
  the closure at each position of a list in turn, threading the captured state, and
  collects the vectors.
\<close>

fun sample :: "'s Config \<Rightarrow> (float64 \<times> float64 \<times> float64) list \<Rightarrow> 's \<Rightarrow> Vector list" where
  "sample c [] s = []"
| "sample c ((x, y, z) # ps) s = (let (v, s') = c x y z s in v # sample c ps s')"

section \<open>httpfs: creating a file\<close>

text \<open>
  \<^verbatim>\<open>httpfs/util.go\<close> builds on the client calls \<^verbatim>\<open>Remove\<close> and \<^verbatim>\<open>Append\<close>, which are
  declared in another file of the package. The model takes them as parameters acting on
  the state \<open>'fs\<close> of the remote file system; a Go \<^verbatim>\<open>error\<close> is a value of \<open>'e\<close> and
  \<^verbatim>\<open>nil\<close> is \<open>None\<close>.
\<close>

type_synonym ('fs, 'e) Remove_fn = "string \<Rightarrow> 'fs \<Rightarrow> 'e option \<times> 'fs"
type_synonym ('fs, 'e) Append_fn = "string \<Rightarrow> 8 word list \<Rightarrow> 'fs \<Rightarrow> 'e option \<times> 'fs"

definition BUFSIZE :: nat where
  "BUFSIZE = 16 * 1024 * 1024"

record appendWriter =
  URL :: string

record bufio_Writer =
  wr :: appendWriter
  size :: nat
  buffered :: "8 word list"

record bufWriter =
  buf :: bufio_Writer

definition bufio_NewWriterSize :: "appendWriter \<Rightarrow> nat \<Rightarrow> bufio_Writer" where
  "bufio_NewWriterSize w n = \<lparr>wr = w, size = n, buffered = []\<rparr>"

definition Touch :: "('fs, 'e) Append_fn \<Rightarrow> string \<Rightarrow> 'fs \<Rightarrow> 'e option \<times> 'fs" where
  "Touch Append url fs = Append url [] fs"

definition Create ::
  "('fs, 'e) Remove_fn \<Rightarrow> ('fs, 'e) Append_fn \<Rightarrow> string \<Rightarrow> 'fs \<Rightarrow> ('e + bufWriter) \<times> 'fs" where
  "Create Remove Append url fs =
     (let (_, fs) = Remove url fs;
          (err, fs) = Touch Append url fs
      in case err of
           Some e \<Rightarrow> (Inl e, fs)
         | None \<Rightarrow> (Inr \<lparr>buf = bufio_NewWriterSize \<lparr>URL = url\<rparr> BUFSIZE\<rparr>, fs))"

section \<open>Measures used in the statements\<close>

text \<open>
  The squared length and the length of a vector, computed in the same arithmetic as the
  code. Both are not-a-number as soon as one component is.
\<close>

definition sq_norm :: "Vector \<Rightarrow> float64" where
  "sq_norm m = X m * X m + Y m * Y m + Z m * Z m"

definition euclid_norm :: "Vector \<Rightarrow> float64" where
  "euclid_norm m = math_Sqrt (sq_norm m)"

text \<open>
  The out-of-plane component \<^verbatim>\<open>mz\<close> of \<^verbatim>\<open>NeelSkyrmion\<close> and \<^verbatim>\<open>BlochSkyrmion\<close> at finite
  arguments, \<^verbatim>\<open>2 * pol * (exp(-r2/w2) - 0.5)\<close> with \<^verbatim>\<open>w = 8 * cellSizeX\<close>, as a real number.
\<close>

definition skyrmion_mz :: "real \<Rightarrow> int \<Rightarrow> real \<Rightarrow> real \<Rightarrow> real" where
  "skyrmion_mz cs pol x y =
     2 * of_int pol * (exp (- (x * x + y * y) / (8 * cs * (8 * cs))) - 0.5)"

text \<open>
  The rotated coordinate as the specification words it: the projection of \<open>(x, y)\<close> on
  the normalized wavevector \<open>(qx, qy)\<close>.
\<close>

definition spec_aligned_u :: "real \<Rightarrow> real \<Rightarrow> real \<Rightarrow> real \<Rightarrow> real" where
  "spec_aligned_u qx qy x y = (qx * x + qy * y) / sqrt (qx * qx + qy * qy)"

section \<open>Arithmetic of the model\<close>

lemma float64_NaN_absorb [simp]:
  "a + NaN = NaN" "a * NaN = NaN" "a / NaN = NaN" "a - NaN = NaN" "NaN - a = NaN"
  by (cases a; simp add: minus_float64_def)+

lemma float64_Fin_minus [simp]: "Fin a - Fin b = Fin (a - b)"
  by (simp add: minus_float64_def)

lemma sq_norm_Fin:
  "sq_norm (Vector (Fin a) (Fin b) (Fin c)) = Fin (a * a + b * b + c * c)"
  by (simp add: sq_norm_def)

lemma q_norm_pos: "qx \<noteq> 0 \<or> qy \<noteq> 0 \<Longrightarrow> 0 < sqrt (qx * qx + qy * qy)"
  by (simp add: sum_squares_gt_zero_iff)

lemma sign_sq: "c = 1 \<or> c = - 1 \<Longrightarrow> (of_int c :: real) * of_int c = 1"
  by auto

section \<open>The helical configuration\<close>

text \<open>
  For a wavevector other than zero the quotient \<^verbatim>\<open>qx / q_norm\<close> is a finite number
  between \<open>-1\<close> and \<open>1\<close>, so \<^verbatim>\<open>math.Acos\<close> is defined on it.
\<close>

lemma q_x_bounds:
  assumes "qx \<noteq> 0 \<or> qy \<noteq> (0::real)"
  shows "\<bar>qx / sqrt (qx * qx + qy * qy)\<bar> \<le> 1"
proof -
  have "\<bar>qx\<bar> = sqrt (qx * qx)" by simp
  also have "\<dots> \<le> sqrt (qx * qx + qy * qy)" by (rule real_sqrt_le_mono) simp
  finally show ?thesis using q_norm_pos[OF assms] by simp
qed

lemma cos_theta_Fin:
  "qx \<noteq> 0 \<or> qy \<noteq> 0 \<Longrightarrow>
   HelicalMag_cos_theta (Fin qx) (Fin qy) = Fin (qx / sqrt (qx * qx + qy * qy))"
  using q_norm_pos[of qx qy]
  by (simp add: HelicalMag_cos_theta_def Let_def not_less)

lemma sin_theta_Fin:
  assumes "qx \<noteq> 0 \<or> qy \<noteq> 0"
  shows "HelicalMag_sin_theta (Fin qx) (Fin qy)
         = Fin (sin (arccos (qx / sqrt (qx * qx + qy * qy))))"
proof -
  have "- 1 \<le> qx / sqrt (qx * qx + qy * qy)" "qx / sqrt (qx * qx + qy * qy) \<le> 1"
    using q_x_bounds[OF assms] by linarith+
  then show ?thesis
    by (simp add: HelicalMag_sin_theta_def cos_theta_Fin[OF assms])
qed

text \<open>
  \<^verbatim>\<open>math.Sin(math.Acos(c))\<close> is the non-negative root of \<open>1 - c\<^sup>2\<close>: the sine of the
  rotation is \<open>\<bar>qy\<bar> / q_norm\<close>, whatever the sign of \<open>qy\<close>.
\<close>

lemma sin_theta_value:
  assumes "qx \<noteq> 0 \<or> qy \<noteq> 0"
  shows "sin (arccos (qx / sqrt (qx * qx + qy * qy))) = \<bar>qy\<bar> / sqrt (qx * qx + qy * qy)"
proof -
  let ?n = "sqrt (qx * qx + qy * qy)"
  have n: "0 < ?n" by (rule q_norm_pos[OF assms])
  have "sin (arccos (qx / ?n)) = sqrt (1 - (qx / ?n)\<^sup>2)"
    by (rule sin_arccos_abs[OF q_x_bounds[OF assms]])
  also have "1 - (qx / ?n)\<^sup>2 = (qy / ?n)\<^sup>2"
  proof -
    have d: "0 < qx * qx + qy * qy"
      using assms by (simp add: sum_squares_gt_zero_iff)
    have "(qx / ?n)\<^sup>2 = qx * qx / (qx * qx + qy * qy)"
         "(qy / ?n)\<^sup>2 = qy * qy / (qx * qx + qy * qy)"
      by (simp_all add: power_divide power2_eq_square)
    moreover have "qx * qx / (qx * qx + qy * qy) + qy * qy / (qx * qx + qy * qy) = 1"
      using d assms by (auto simp add: add_divide_distrib[symmetric])
    ultimately show ?thesis by linarith
  qed
  also have "sqrt ((qy / ?n)\<^sup>2) = \<bar>qy\<bar> / ?n" using n by simp
  finally show ?thesis .
qed

text \<open>What the code computes for \<^verbatim>\<open>u\<close>: the projection on \<open>(qx, \<bar>qy\<bar>)\<close>.\<close>

lemma HelicalMag_u_value:
  assumes q: "qx \<noteq> 0 \<or> qy \<noteq> 0"
  shows "HelicalMag_u (Fin qx) (Fin qy) (Fin x) (Fin y)
         = Fin ((qx * x + \<bar>qy\<bar> * y) / sqrt (qx * qx + qy * qy))"
  by (simp add: HelicalMag_u_def cos_theta_Fin[OF q] sin_theta_Fin[OF q]
        sin_theta_value[OF q] add_divide_distrib)

lemma HelicalMag_sq_norm:
  assumes q: "qx \<noteq> 0 \<or> qy \<noteq> 0" and Ld: "Ld \<noteq> 0"
  shows "sq_norm (fst (HelicalMag (Fin Ld) (Fin qx) (Fin qy) (Fin x) (Fin y) z s)) = Fin 1"
proof -
  define \<alpha> where "\<alpha> = arccos (qx / sqrt (qx * qx + qy * qy))"
  have c: "HelicalMag_cos_theta (Fin qx) (Fin qy) = Fin (cos \<alpha>)"
    using q_x_bounds[OF q] by (simp add: cos_theta_Fin[OF q] \<alpha>_def cos_arccos_abs)
  have s: "HelicalMag_sin_theta (Fin qx) (Fin qy) = Fin (sin \<alpha>)"
    by (simp add: sin_theta_Fin[OF q] \<alpha>_def)
  define \<phi> where "\<phi> = 2 * pi * (cos \<alpha> * x + sin \<alpha> * y) / Ld"
  have m: "fst (HelicalMag (Fin Ld) (Fin qx) (Fin qy) (Fin x) (Fin y) z s)
        = Vector (Fin (sin \<alpha> * cos \<phi>)) (Fin (cos \<alpha> * cos \<phi>)) (Fin (sin \<phi>))"
    using Ld by (simp add: HelicalMag_def HelicalMag_u_def c s Let_def math_Pi_def \<phi>_def)
  have "sin \<alpha> * cos \<phi> * (sin \<alpha> * cos \<phi>) + cos \<alpha> * cos \<phi> * (cos \<alpha> * cos \<phi>)
        + sin \<phi> * sin \<phi> = 1"
    using sin_cos_squared_add[of \<alpha>] sin_cos_squared_add[of \<phi>]
    unfolding power2_eq_square by algebra
  then show ?thesis by (simp only: m sq_norm_Fin)
qed

text \<open>
  C3. The claim: with a degenerate wavevector (\<open>qx = 0\<close> and \<open>qy = 0\<close>) \<^verbatim>\<open>HelicalMag\<close>
  returns a vector without a not-a-number component, through a local fallback. The code
  has no such fallback: \<^verbatim>\<open>q_norm\<close> is \<open>0\<close>, \<^verbatim>\<open>qx / q_norm\<close> is \<^verbatim>\<open>0/0\<close>, and the
  not-a-number runs through \<^verbatim>\<open>cos_theta\<close>, \<^verbatim>\<open>sin_theta\<close>, \<^verbatim>\<open>u\<close> and \<^verbatim>\<open>m_v\<close> into all three
  components, for every \<open>Ld\<close> and every position; for instance \<^verbatim>\<open>HelicalMag(1, 0, 0)\<close> at
  \<open>(0, 0, 0)\<close>.
\<close>

theorem HelicalMag_degenerate_is_NaN:
  "HelicalMag Ld (Fin 0) (Fin 0) x y z s = (Vector NaN NaN NaN, s)"
  by (simp add: HelicalMag_def HelicalMag_cos_theta_def HelicalMag_sin_theta_def
        HelicalMag_u_def Let_def)

text \<open>
  C5. The claim: the helix phase is taken along the normalized wavevector, \<^verbatim>\<open>u\<close> being
  \<open>(qx * x + qy * y) / sqrt (qx\<^sup>2 + qy\<^sup>2)\<close> for every sign of \<open>qy\<close>. The code takes the sine
  of the rotation from \<^verbatim>\<open>math.Sin(math.Acos(cos_theta))\<close>, which is never negative, so a
  negative \<open>qy\<close> is read as \<open>\<bar>qy\<bar>\<close>. At \<^verbatim>\<open>HelicalMag(4, 0, -1)\<close> and the position
  \<open>(0, 1, 0)\<close> the code has \<open>u = 1\<close> where the claim has \<open>u = -1\<close>, and the vector returned
  is \<open>(0, 0, 1)\<close>, where a helix along \<open>(0, -1)\<close> has \<open>(0, 0, -1)\<close>.
\<close>

theorem HelicalMag_u_negative_qy:
  "HelicalMag_u (Fin 0) (Fin (- 1)) (Fin 0) (Fin 1) = Fin 1
   \<and> spec_aligned_u 0 (- 1) 0 1 = - 1
   \<and> fst (HelicalMag (Fin 4) (Fin 0) (Fin (- 1)) (Fin 0) (Fin 1) (Fin 0) ())
       = Vector (Fin 0) (Fin 0) (Fin 1)"
  by (simp add: HelicalMag_def HelicalMag_cos_theta_def HelicalMag_sin_theta_def
        HelicalMag_u_def Let_def math_Pi_def spec_aligned_u_def)

text \<open>
  C6. For every wavevector \<open>(qx, qy)\<close> other than zero, every \<open>Ld\<close> other than zero and
  every position, the vector \<open>m\<close> returned by \<^verbatim>\<open>HelicalMag\<close> satisfies
  \<open>m[X]\<^sup>2 + m[Y]\<^sup>2 + m[Z]\<^sup>2 = 1\<close>, exactly, in real arithmetic.
\<close>

theorem HelicalMag_unit_norm:
  assumes "qx \<noteq> 0 \<or> qy \<noteq> 0" and "Ld \<noteq> 0"
  shows "sq_norm (fst (HelicalMag (Fin Ld) (Fin qx) (Fin qy) (Fin x) (Fin y) z s)) = Fin 1"
  using assms by (rule HelicalMag_sq_norm)

theorem HelicalMag_unit_norm_witness:
  "(3::real) \<noteq> 0 \<and> (- 4::real) \<noteq> 0 \<and> (70::real) \<noteq> 0
   \<and> sq_norm (fst (HelicalMag (Fin 70) (Fin 3) (Fin (- 4)) (Fin 5) (Fin 6) (Fin 7) ())) = Fin 1"
  using HelicalMag_unit_norm [of 3 "- 4" 70 5 6 "Fin 7" "()"] by simp

section \<open>Vortices and skyrmions\<close>

text \<open>
  In the exact arithmetic of the model, away from the axis (\<open>x \<noteq> 0\<close> or \<open>y \<noteq> 0\<close>) and
  for a cell size other than zero, every intermediate value is finite and \<^verbatim>\<open>noNaN\<close>
  returns the vector as computed. (In \<^verbatim>\<open>float64\<close> a square can underflow to zero or
  overflow, which the model does not carry.)
\<close>

lemma Vortex_Fin:
  assumes "cs \<noteq> 0" "x \<noteq> 0 \<or> y \<noteq> 0"
  shows "Vortex (Fin cs) circ pol (Fin x) (Fin y) z s =
    (Vector (Fin (- (y * of_int circ / sqrt (x * x + y * y))))
            (Fin (x * of_int circ / sqrt (x * x + y * y)))
            (Fin (1.5 * of_int pol * exp (- (x * x + y * y) / (2 * (cs * cs))))), s)"
  using assms q_norm_pos[of x y]
  by (auto simp add: Vortex_def Let_def sqr64_def float64_of_int_def noNaN_def not_less)

lemma AntiVortex_Fin:
  assumes "cs \<noteq> 0" "x \<noteq> 0 \<or> y \<noteq> 0"
  shows "AntiVortex (Fin cs) circ pol (Fin x) (Fin y) z s =
    (Vector (Fin (- (x * of_int circ / sqrt (x * x + y * y))))
            (Fin (y * of_int circ / sqrt (x * x + y * y)))
            (Fin (1.5 * of_int pol * exp (- (x * x + y * y) / (2 * (cs * cs))))), s)"
  using assms q_norm_pos[of x y]
  by (auto simp add: AntiVortex_def Let_def sqr64_def float64_of_int_def noNaN_def not_less)

lemma NeelSkyrmion_Fin:
  assumes "cs \<noteq> 0" "x \<noteq> 0 \<or> y \<noteq> 0"
  shows "NeelSkyrmion (Fin cs) charge pol (Fin x) (Fin y) z s =
    (Vector (Fin (x * of_int charge / sqrt (x * x + y * y) * (1 - \<bar>skyrmion_mz cs pol x y\<bar>)))
            (Fin (y * of_int charge / sqrt (x * x + y * y) * (1 - \<bar>skyrmion_mz cs pol x y\<bar>)))
            (Fin (skyrmion_mz cs pol x y)), s)"
  using assms q_norm_pos[of x y]
  by (auto simp add: NeelSkyrmion_def Let_def float64_of_int_def noNaN_def not_less
        skyrmion_mz_def)

lemma BlochSkyrmion_Fin:
  assumes "cs \<noteq> 0" "x \<noteq> 0 \<or> y \<noteq> 0"
  shows "BlochSkyrmion (Fin cs) charge pol (Fin x) (Fin y) z s =
    (Vector (Fin (- (y * of_int charge / sqrt (x * x + y * y)) * (1 - \<bar>skyrmion_mz cs pol x y\<bar>)))
            (Fin (x * of_int charge / sqrt (x * x + y * y) * (1 - \<bar>skyrmion_mz cs pol x y\<bar>)))
            (Fin (skyrmion_mz cs pol x y)), s)"
  using assms q_norm_pos[of x y]
  by (auto simp add: BlochSkyrmion_def Let_def float64_of_int_def noNaN_def not_less
        skyrmion_mz_def)

text \<open>The in-plane direction \<open>(x, y) * c / r\<close> has length one when \<open>c\<close> is a sign.\<close>

lemma in_plane_unit:
  fixes x y c :: real
  assumes xy: "x \<noteq> 0 \<or> y \<noteq> 0" and c: "c * c = 1"
  shows "(x * c / sqrt (x * x + y * y)) * (x * c / sqrt (x * x + y * y))
       + (y * c / sqrt (x * x + y * y)) * (y * c / sqrt (x * x + y * y)) = 1"
proof -
  let ?r = "sqrt (x * x + y * y)"
  have d: "0 < x * x + y * y" using xy by (simp add: sum_squares_gt_zero_iff)
  have r2: "?r * ?r = x * x + y * y" by simp
  have "(x * c / ?r) * (x * c / ?r) + (y * c / ?r) * (y * c / ?r)
        = (c * c) * (x * x + y * y) / (?r * ?r)"
    by (simp only: times_divide_times_eq add_divide_distrib[symmetric]) (simp add: algebra_simps)
  also have "\<dots> = 1" using d xy by (auto simp only: r2 c) auto
  finally show ?thesis .
qed

lemma vortex_arith:
  fixes A B p e :: real
  assumes "A * A + B * B = 1" "p * p = 1"
  shows "(- B) * (- B) + A * A + (1.5 * p * e) * (1.5 * p * e) = 1 + (1.5 * e)\<^sup>2"
    and "(- A) * (- A) + B * B + (1.5 * p * e) * (1.5 * p * e) = 1 + (1.5 * e)\<^sup>2"
proof -
  have "(1.5 * p * e) * (1.5 * p * e) = (p * p) * (1.5 * e)\<^sup>2"
    by (simp add: power2_eq_square)
  then have z: "(1.5 * p * e) * (1.5 * p * e) = (1.5 * e)\<^sup>2"
    by (simp only: assms(2) mult_1)
  show "(- B) * (- B) + A * A + (1.5 * p * e) * (1.5 * p * e) = 1 + (1.5 * e)\<^sup>2"
    using assms(1) by (simp only: z minus_mult_minus)
  show "(- A) * (- A) + B * B + (1.5 * p * e) * (1.5 * p * e) = 1 + (1.5 * e)\<^sup>2"
    using assms(1) by (simp only: z minus_mult_minus)
qed

lemma skyrmion_arith:
  fixes A B k m :: real
  assumes "A * A + B * B = 1"
  shows "(A * k) * (A * k) + (B * k) * (B * k) + m * m = k\<^sup>2 + m\<^sup>2"
    and "(- B * k) * (- B * k) + (A * k) * (A * k) + m * m = k\<^sup>2 + m\<^sup>2"
proof -
  have "(A * k) * (A * k) + (B * k) * (B * k) = (A * A + B * B) * k\<^sup>2"
    by (simp add: power2_eq_square algebra_simps)
  then have e: "(A * k) * (A * k) + (B * k) * (B * k) = k\<^sup>2"
    by (simp only: assms mult_1)
  then show "(A * k) * (A * k) + (B * k) * (B * k) + m * m = k\<^sup>2 + m\<^sup>2"
    by (simp add: power2_eq_square)
  from e show "(- B * k) * (- B * k) + (A * k) * (A * k) + m * m = k\<^sup>2 + m\<^sup>2"
    by (simp add: power2_eq_square)
qed

lemma Vortex_sq_norm:
  assumes cs: "cs \<noteq> 0" and xy: "x \<noteq> 0 \<or> y \<noteq> 0"
      and circ: "circ = 1 \<or> circ = - 1" and pol: "pol = 1 \<or> pol = - 1"
  shows "sq_norm (fst (Vortex (Fin cs) circ pol (Fin x) (Fin y) z s))
       = Fin (1 + (1.5 * exp (- (x * x + y * y) / (2 * (cs * cs))))\<^sup>2)"
  by (simp only: Vortex_Fin[OF cs xy] fst_conv sq_norm_Fin
        vortex_arith(1)[OF in_plane_unit[OF xy sign_sq[OF circ]] sign_sq[OF pol]])

lemma AntiVortex_sq_norm:
  assumes cs: "cs \<noteq> 0" and xy: "x \<noteq> 0 \<or> y \<noteq> 0"
      and circ: "circ = 1 \<or> circ = - 1" and pol: "pol = 1 \<or> pol = - 1"
  shows "sq_norm (fst (AntiVortex (Fin cs) circ pol (Fin x) (Fin y) z s))
       = Fin (1 + (1.5 * exp (- (x * x + y * y) / (2 * (cs * cs))))\<^sup>2)"
  by (simp only: AntiVortex_Fin[OF cs xy] fst_conv sq_norm_Fin
        vortex_arith(2)[OF in_plane_unit[OF xy sign_sq[OF circ]] sign_sq[OF pol]])

lemma NeelSkyrmion_sq_norm:
  assumes cs: "cs \<noteq> 0" and xy: "x \<noteq> 0 \<or> y \<noteq> 0"
      and charge: "charge = 1 \<or> charge = - 1"
  shows "sq_norm (fst (NeelSkyrmion (Fin cs) charge pol (Fin x) (Fin y) z s))
       = Fin ((1 - \<bar>skyrmion_mz cs pol x y\<bar>)\<^sup>2 + (skyrmion_mz cs pol x y)\<^sup>2)"
  by (simp only: NeelSkyrmion_Fin[OF cs xy] fst_conv sq_norm_Fin
        skyrmion_arith(1)[OF in_plane_unit[OF xy sign_sq[OF charge]]])

lemma BlochSkyrmion_sq_norm:
  assumes cs: "cs \<noteq> 0" and xy: "x \<noteq> 0 \<or> y \<noteq> 0"
      and charge: "charge = 1 \<or> charge = - 1"
  shows "sq_norm (fst (BlochSkyrmion (Fin cs) charge pol (Fin x) (Fin y) z s))
       = Fin ((1 - \<bar>skyrmion_mz cs pol x y\<bar>)\<^sup>2 + (skyrmion_mz cs pol x y)\<^sup>2)"
  by (simp only: BlochSkyrmion_Fin[OF cs xy] fst_conv sq_norm_Fin
        skyrmion_arith(2)[OF in_plane_unit[OF xy sign_sq[OF charge]]])

lemma in_plane_arith:
  fixes A B k :: real
  assumes "A * A + B * B = 1"
  shows "(- B) * (- B) + A * A = 1"
    and "(- A) * (- A) + B * B = 1"
    and "(A * k) * (A * k) + (B * k) * (B * k) = k\<^sup>2"
    and "(- B * k) * (- B * k) + (A * k) * (A * k) = k\<^sup>2"
proof -
  show "(- B) * (- B) + A * A = 1" using assms by simp
  show "(- A) * (- A) + B * B = 1" using assms by simp
  have "(A * k) * (A * k) + (B * k) * (B * k) = (A * A + B * B) * k\<^sup>2"
    by (simp add: power2_eq_square algebra_simps)
  then have e: "(A * k) * (A * k) + (B * k) * (B * k) = k\<^sup>2"
    by (simp only: assms mult_1)
  then show "(A * k) * (A * k) + (B * k) * (B * k) = k\<^sup>2" .
  from e show "(- B * k) * (- B * k) + (A * k) * (A * k) = k\<^sup>2" by simp
qed

lemma in_plane_Fin:
  "X (Vector (Fin a) (Fin b) c) * X (Vector (Fin a) (Fin b) c)
   + Y (Vector (Fin a) (Fin b) c) * Y (Vector (Fin a) (Fin b) c) = Fin (a * a + b * b)"
  by simp

lemma Vortex_in_plane:
  assumes cs: "cs \<noteq> 0" and xy: "x \<noteq> 0 \<or> y \<noteq> 0" and circ: "circ = 1 \<or> circ = - 1"
  shows "X (fst (Vortex (Fin cs) circ pol (Fin x) (Fin y) z s))
           * X (fst (Vortex (Fin cs) circ pol (Fin x) (Fin y) z s))
         + Y (fst (Vortex (Fin cs) circ pol (Fin x) (Fin y) z s))
           * Y (fst (Vortex (Fin cs) circ pol (Fin x) (Fin y) z s)) = Fin 1"
  by (simp only: Vortex_Fin[OF cs xy] fst_conv in_plane_Fin
        in_plane_arith(1)[OF in_plane_unit[OF xy sign_sq[OF circ]]])

lemma AntiVortex_in_plane:
  assumes cs: "cs \<noteq> 0" and xy: "x \<noteq> 0 \<or> y \<noteq> 0" and circ: "circ = 1 \<or> circ = - 1"
  shows "X (fst (AntiVortex (Fin cs) circ pol (Fin x) (Fin y) z s))
           * X (fst (AntiVortex (Fin cs) circ pol (Fin x) (Fin y) z s))
         + Y (fst (AntiVortex (Fin cs) circ pol (Fin x) (Fin y) z s))
           * Y (fst (AntiVortex (Fin cs) circ pol (Fin x) (Fin y) z s)) = Fin 1"
  by (simp only: AntiVortex_Fin[OF cs xy] fst_conv in_plane_Fin
        in_plane_arith(2)[OF in_plane_unit[OF xy sign_sq[OF circ]]])

lemma NeelSkyrmion_in_plane:
  assumes cs: "cs \<noteq> 0" and xy: "x \<noteq> 0 \<or> y \<noteq> 0"
      and charge: "charge = 1 \<or> charge = - 1"
  shows "X (fst (NeelSkyrmion (Fin cs) charge pol (Fin x) (Fin y) z s))
           * X (fst (NeelSkyrmion (Fin cs) charge pol (Fin x) (Fin y) z s))
         + Y (fst (NeelSkyrmion (Fin cs) charge pol (Fin x) (Fin y) z s))
           * Y (fst (NeelSkyrmion (Fin cs) charge pol (Fin x) (Fin y) z s))
         = Fin ((1 - \<bar>skyrmion_mz cs pol x y\<bar>)\<^sup>2)"
  by (simp only: NeelSkyrmion_Fin[OF cs xy] fst_conv in_plane_Fin
        in_plane_arith(3)[OF in_plane_unit[OF xy sign_sq[OF charge]]])

lemma BlochSkyrmion_in_plane:
  assumes cs: "cs \<noteq> 0" and xy: "x \<noteq> 0 \<or> y \<noteq> 0"
      and charge: "charge = 1 \<or> charge = - 1"
  shows "X (fst (BlochSkyrmion (Fin cs) charge pol (Fin x) (Fin y) z s))
           * X (fst (BlochSkyrmion (Fin cs) charge pol (Fin x) (Fin y) z s))
         + Y (fst (BlochSkyrmion (Fin cs) charge pol (Fin x) (Fin y) z s))
           * Y (fst (BlochSkyrmion (Fin cs) charge pol (Fin x) (Fin y) z s))
         = Fin ((1 - \<bar>skyrmion_mz cs pol x y\<bar>)\<^sup>2)"
  by (simp only: BlochSkyrmion_Fin[OF cs xy] fst_conv in_plane_Fin
        in_plane_arith(4)[OF in_plane_unit[OF xy sign_sq[OF charge]]])

lemma vortex_not_unit: "Fin (1 + (1.5 * exp t)\<^sup>2) \<noteq> Fin 1"
  by simp

text \<open>
  C1, as amended. The claim gives length one to every vector that \<^verbatim>\<open>Vortex\<close>,
  \<^verbatim>\<open>AntiVortex\<close>, \<^verbatim>\<open>NeelSkyrmion\<close>, \<^verbatim>\<open>BlochSkyrmion\<close> and \<^verbatim>\<open>HelicalMag\<close> return outside
  the fallback. What holds, in real arithmetic (finite numbers, exact operations), is
  the following. \<open>r\<close> is \<open>sqrt (x\<^sup>2 + y\<^sup>2)\<close>, \<open>diam2\<close> is \<open>2 * cs\<^sup>2\<close> and \<open>mz\<close> is the
  skyrmion profile \<open>2 * pol * (exp (- r\<^sup>2 / (8 * cs)\<^sup>2) - 0.5)\<close>, for the cell size \<open>cs\<close>.
  \<^item> For a cell size other than zero and a position off the axis (\<open>x \<noteq> 0\<close> or \<open>y \<noteq> 0\<close>),
    whatever the integers \<open>circ\<close>, \<open>charge\<close> and \<open>pol\<close>, the four generators return the
    vector as computed, with no not-a-number in it: \<^verbatim>\<open>Vortex\<close> returns
    \<open>(- y * circ / r, x * circ / r, 1.5 * pol * exp (- r\<^sup>2 / diam2))\<close>, \<^verbatim>\<open>AntiVortex\<close>
    \<open>(- x * circ / r, y * circ / r, 1.5 * pol * exp (- r\<^sup>2 / diam2))\<close>, \<^verbatim>\<open>NeelSkyrmion\<close>
    \<open>(x * charge / r * (1 - \<bar>mz\<bar>), y * charge / r * (1 - \<bar>mz\<bar>), mz)\<close> and
    \<^verbatim>\<open>BlochSkyrmion\<close> \<open>(- y * charge / r * (1 - \<bar>mz\<bar>), x * charge / r * (1 - \<bar>mz\<bar>), mz)\<close>.
  \<^item> If moreover \<open>circ\<close> and \<open>pol\<close> are in \<open>{1, -1}\<close>, the in-plane part of \<^verbatim>\<open>Vortex\<close> and
    of \<^verbatim>\<open>AntiVortex\<close> has squared length \<open>1\<close> and the vector has squared length
    \<open>1 + (1.5 * exp (- r\<^sup>2 / diam2))\<^sup>2\<close>, which is not \<open>1\<close>.
  \<^item> If \<open>charge\<close> is in \<open>{1, -1}\<close>, whatever \<open>pol\<close>, the in-plane part of \<^verbatim>\<open>NeelSkyrmion\<close>
    and of \<^verbatim>\<open>BlochSkyrmion\<close> has squared length \<open>(1 - \<bar>mz\<bar>)\<^sup>2\<close> and the vector has
    squared length \<open>(1 - \<bar>mz\<bar>)\<^sup>2 + mz\<^sup>2\<close>.
  \<^item> \<^verbatim>\<open>HelicalMag\<close>, with a wavevector and an \<open>Ld\<close> other than zero, returns a vector of
    squared length \<open>1\<close> at every finite position \<open>(hx, hy)\<close>, on the axis or off it.
\<close>

theorem generators_sq_norm:
  "(cs \<noteq> 0 \<and> (x \<noteq> 0 \<or> y \<noteq> 0) \<longrightarrow>
      fst (Vortex (Fin cs) circ pol (Fin x) (Fin y) z s)
        = Vector (Fin (- (y * of_int circ / sqrt (x * x + y * y))))
                 (Fin (x * of_int circ / sqrt (x * x + y * y)))
                 (Fin (1.5 * of_int pol * exp (- (x * x + y * y) / (2 * (cs * cs)))))
    \<and> fst (AntiVortex (Fin cs) circ pol (Fin x) (Fin y) z s)
        = Vector (Fin (- (x * of_int circ / sqrt (x * x + y * y))))
                 (Fin (y * of_int circ / sqrt (x * x + y * y)))
                 (Fin (1.5 * of_int pol * exp (- (x * x + y * y) / (2 * (cs * cs)))))
    \<and> fst (NeelSkyrmion (Fin cs) charge pol (Fin x) (Fin y) z s)
        = Vector (Fin (x * of_int charge / sqrt (x * x + y * y)
                       * (1 - \<bar>skyrmion_mz cs pol x y\<bar>)))
                 (Fin (y * of_int charge / sqrt (x * x + y * y)
                       * (1 - \<bar>skyrmion_mz cs pol x y\<bar>)))
                 (Fin (skyrmion_mz cs pol x y))
    \<and> fst (BlochSkyrmion (Fin cs) charge pol (Fin x) (Fin y) z s)
        = Vector (Fin (- (y * of_int charge / sqrt (x * x + y * y))
                       * (1 - \<bar>skyrmion_mz cs pol x y\<bar>)))
                 (Fin (x * of_int charge / sqrt (x * x + y * y)
                       * (1 - \<bar>skyrmion_mz cs pol x y\<bar>)))
                 (Fin (skyrmion_mz cs pol x y)))
   \<and> (cs \<noteq> 0 \<and> (x \<noteq> 0 \<or> y \<noteq> 0) \<and> (circ = 1 \<or> circ = - 1) \<and> (pol = 1 \<or> pol = - 1) \<longrightarrow>
      X (fst (Vortex (Fin cs) circ pol (Fin x) (Fin y) z s))
        * X (fst (Vortex (Fin cs) circ pol (Fin x) (Fin y) z s))
      + Y (fst (Vortex (Fin cs) circ pol (Fin x) (Fin y) z s))
        * Y (fst (Vortex (Fin cs) circ pol (Fin x) (Fin y) z s)) = Fin 1
    \<and> sq_norm (fst (Vortex (Fin cs) circ pol (Fin x) (Fin y) z s))
        = Fin (1 + (1.5 * exp (- (x * x + y * y) / (2 * (cs * cs))))\<^sup>2)
    \<and> sq_norm (fst (Vortex (Fin cs) circ pol (Fin x) (Fin y) z s)) \<noteq> Fin 1
    \<and> X (fst (AntiVortex (Fin cs) circ pol (Fin x) (Fin y) z s))
        * X (fst (AntiVortex (Fin cs) circ pol (Fin x) (Fin y) z s))
      + Y (fst (AntiVortex (Fin cs) circ pol (Fin x) (Fin y) z s))
        * Y (fst (AntiVortex (Fin cs) circ pol (Fin x) (Fin y) z s)) = Fin 1
    \<and> sq_norm (fst (AntiVortex (Fin cs) circ pol (Fin x) (Fin y) z s))
        = Fin (1 + (1.5 * exp (- (x * x + y * y) / (2 * (cs * cs))))\<^sup>2)
    \<and> sq_norm (fst (AntiVortex (Fin cs) circ pol (Fin x) (Fin y) z s)) \<noteq> Fin 1)
   \<and> (cs \<noteq> 0 \<and> (x \<noteq> 0 \<or> y \<noteq> 0) \<and> (charge = 1 \<or> charge = - 1) \<longrightarrow>
      X (fst (NeelSkyrmion (Fin cs) charge pol (Fin x) (Fin y) z s))
        * X (fst (NeelSkyrmion (Fin cs) charge pol (Fin x) (Fin y) z s))
      + Y (fst (NeelSkyrmion (Fin cs) charge pol (Fin x) (Fin y) z s))
        * Y (fst (NeelSkyrmion (Fin cs) charge pol (Fin x) (Fin y) z s))
        = Fin ((1 - \<bar>skyrmion_mz cs pol x y\<bar>)\<^sup>2)
    \<and> sq_norm (fst (NeelSkyrmion (Fin cs) charge pol (Fin x) (Fin y) z s))
        = Fin ((1 - \<bar>skyrmion_mz cs pol x y\<bar>)\<^sup>2 + (skyrmion_mz cs pol x y)\<^sup>2)
    \<and> X (fst (BlochSkyrmion (Fin cs) charge pol (Fin x) (Fin y) z s))
        * X (fst (BlochSkyrmion (Fin cs) charge pol (Fin x) (Fin y) z s))
      + Y (fst (BlochSkyrmion (Fin cs) charge pol (Fin x) (Fin y) z s))
        * Y (fst (BlochSkyrmion (Fin cs) charge pol (Fin x) (Fin y) z s))
        = Fin ((1 - \<bar>skyrmion_mz cs pol x y\<bar>)\<^sup>2)
    \<and> sq_norm (fst (BlochSkyrmion (Fin cs) charge pol (Fin x) (Fin y) z s))
        = Fin ((1 - \<bar>skyrmion_mz cs pol x y\<bar>)\<^sup>2 + (skyrmion_mz cs pol x y)\<^sup>2))
   \<and> ((qx \<noteq> 0 \<or> qy \<noteq> 0) \<and> Ld \<noteq> 0 \<longrightarrow>
      sq_norm (fst (HelicalMag (Fin Ld) (Fin qx) (Fin qy) (Fin hx) (Fin hy) hz s)) = Fin 1)"
proof (intro conjI impI)
  assume a: "cs \<noteq> 0 \<and> (x \<noteq> 0 \<or> y \<noteq> 0)"
  then have cs: "cs \<noteq> 0" and xy: "x \<noteq> 0 \<or> y \<noteq> 0" by simp_all
  show "fst (Vortex (Fin cs) circ pol (Fin x) (Fin y) z s)
        = Vector (Fin (- (y * of_int circ / sqrt (x * x + y * y))))
                 (Fin (x * of_int circ / sqrt (x * x + y * y)))
                 (Fin (1.5 * of_int pol * exp (- (x * x + y * y) / (2 * (cs * cs)))))"
    by (simp only: Vortex_Fin[OF cs xy] fst_conv)
  show "fst (AntiVortex (Fin cs) circ pol (Fin x) (Fin y) z s)
        = Vector (Fin (- (x * of_int circ / sqrt (x * x + y * y))))
                 (Fin (y * of_int circ / sqrt (x * x + y * y)))
                 (Fin (1.5 * of_int pol * exp (- (x * x + y * y) / (2 * (cs * cs)))))"
    by (simp only: AntiVortex_Fin[OF cs xy] fst_conv)
  show "fst (NeelSkyrmion (Fin cs) charge pol (Fin x) (Fin y) z s)
        = Vector (Fin (x * of_int charge / sqrt (x * x + y * y)
                       * (1 - \<bar>skyrmion_mz cs pol x y\<bar>)))
                 (Fin (y * of_int charge / sqrt (x * x + y * y)
                       * (1 - \<bar>skyrmion_mz cs pol x y\<bar>)))
                 (Fin (skyrmion_mz cs pol x y))"
    by (simp only: NeelSkyrmion_Fin[OF cs xy] fst_conv)
  show "fst (BlochSkyrmion (Fin cs) charge pol (Fin x) (Fin y) z s)
        = Vector (Fin (- (y * of_int charge / sqrt (x * x + y * y))
                       * (1 - \<bar>skyrmion_mz cs pol x y\<bar>)))
                 (Fin (x * of_int charge / sqrt (x * x + y * y)
                       * (1 - \<bar>skyrmion_mz cs pol x y\<bar>)))
                 (Fin (skyrmion_mz cs pol x y))"
    by (simp only: BlochSkyrmion_Fin[OF cs xy] fst_conv)
next
  assume a: "cs \<noteq> 0 \<and> (x \<noteq> 0 \<or> y \<noteq> 0) \<and> (circ = 1 \<or> circ = - 1) \<and> (pol = 1 \<or> pol = - 1)"
  then have cs: "cs \<noteq> 0" and xy: "x \<noteq> 0 \<or> y \<noteq> 0"
    and circ: "circ = 1 \<or> circ = - 1" and pol: "pol = 1 \<or> pol = - 1" by simp_all
  show "X (fst (Vortex (Fin cs) circ pol (Fin x) (Fin y) z s))
        * X (fst (Vortex (Fin cs) circ pol (Fin x) (Fin y) z s))
      + Y (fst (Vortex (Fin cs) circ pol (Fin x) (Fin y) z s))
        * Y (fst (Vortex (Fin cs) circ pol (Fin x) (Fin y) z s)) = Fin 1"
    using cs xy circ by (rule Vortex_in_plane)
  show "sq_norm (fst (Vortex (Fin cs) circ pol (Fin x) (Fin y) z s))
        = Fin (1 + (1.5 * exp (- (x * x + y * y) / (2 * (cs * cs))))\<^sup>2)"
    using cs xy circ pol by (rule Vortex_sq_norm)
  show "sq_norm (fst (Vortex (Fin cs) circ pol (Fin x) (Fin y) z s)) \<noteq> Fin 1"
    by (simp only: Vortex_sq_norm[OF cs xy circ pol] vortex_not_unit not_False_eq_True)
  show "X (fst (AntiVortex (Fin cs) circ pol (Fin x) (Fin y) z s))
        * X (fst (AntiVortex (Fin cs) circ pol (Fin x) (Fin y) z s))
      + Y (fst (AntiVortex (Fin cs) circ pol (Fin x) (Fin y) z s))
        * Y (fst (AntiVortex (Fin cs) circ pol (Fin x) (Fin y) z s)) = Fin 1"
    using cs xy circ by (rule AntiVortex_in_plane)
  show "sq_norm (fst (AntiVortex (Fin cs) circ pol (Fin x) (Fin y) z s))
        = Fin (1 + (1.5 * exp (- (x * x + y * y) / (2 * (cs * cs))))\<^sup>2)"
    using cs xy circ pol by (rule AntiVortex_sq_norm)
  show "sq_norm (fst (AntiVortex (Fin cs) circ pol (Fin x) (Fin y) z s)) \<noteq> Fin 1"
    by (simp only: AntiVortex_sq_norm[OF cs xy circ pol] vortex_not_unit not_False_eq_True)
next
  assume a: "cs \<noteq> 0 \<and> (x \<noteq> 0 \<or> y \<noteq> 0) \<and> (charge = 1 \<or> charge = - 1)"
  then have cs: "cs \<noteq> 0" and xy: "x \<noteq> 0 \<or> y \<noteq> 0"
    and charge: "charge = 1 \<or> charge = - 1" by simp_all
  show "X (fst (NeelSkyrmion (Fin cs) charge pol (Fin x) (Fin y) z s))
        * X (fst (NeelSkyrmion (Fin cs) charge pol (Fin x) (Fin y) z s))
      + Y (fst (NeelSkyrmion (Fin cs) charge pol (Fin x) (Fin y) z s))
        * Y (fst (NeelSkyrmion (Fin cs) charge pol (Fin x) (Fin y) z s))
        = Fin ((1 - \<bar>skyrmion_mz cs pol x y\<bar>)\<^sup>2)"
    using cs xy charge by (rule NeelSkyrmion_in_plane)
  show "sq_norm (fst (NeelSkyrmion (Fin cs) charge pol (Fin x) (Fin y) z s))
        = Fin ((1 - \<bar>skyrmion_mz cs pol x y\<bar>)\<^sup>2 + (skyrmion_mz cs pol x y)\<^sup>2)"
    using cs xy charge by (rule NeelSkyrmion_sq_norm)
  show "X (fst (BlochSkyrmion (Fin cs) charge pol (Fin x) (Fin y) z s))
        * X (fst (BlochSkyrmion (Fin cs) charge pol (Fin x) (Fin y) z s))
      + Y (fst (BlochSkyrmion (Fin cs) charge pol (Fin x) (Fin y) z s))
        * Y (fst (BlochSkyrmion (Fin cs) charge pol (Fin x) (Fin y) z s))
        = Fin ((1 - \<bar>skyrmion_mz cs pol x y\<bar>)\<^sup>2)"
    using cs xy charge by (rule BlochSkyrmion_in_plane)
  show "sq_norm (fst (BlochSkyrmion (Fin cs) charge pol (Fin x) (Fin y) z s))
        = Fin ((1 - \<bar>skyrmion_mz cs pol x y\<bar>)\<^sup>2 + (skyrmion_mz cs pol x y)\<^sup>2)"
    using cs xy charge by (rule BlochSkyrmion_sq_norm)
next
  assume a: "(qx \<noteq> 0 \<or> qy \<noteq> 0) \<and> Ld \<noteq> 0"
  then have q: "qx \<noteq> 0 \<or> qy \<noteq> 0" and Ld: "Ld \<noteq> 0" by simp_all
  show "sq_norm (fst (HelicalMag (Fin Ld) (Fin qx) (Fin qy) (Fin hx) (Fin hy) hz s)) = Fin 1"
    using q Ld by (rule HelicalMag_sq_norm)
qed

theorem generators_sq_norm_witness:
  "(1::real) \<noteq> 0 \<and> (3::real) \<noteq> 0 \<and> (2::real) \<noteq> 0
    \<and> ((1::int) = 1 \<or> (1::int) = - 1) \<and> ((- 1::int) = 1 \<or> (- 1::int) = - 1)
    \<and> fst (Vortex (Fin 1) 1 (- 1) (Fin 3) (Fin 4) (Fin 0) ())
        = Vector (Fin (- (4 * of_int 1 / sqrt (3 * 3 + 4 * 4))))
                 (Fin (3 * of_int 1 / sqrt (3 * 3 + 4 * 4)))
                 (Fin (1.5 * of_int (- 1) * exp (- (3 * 3 + 4 * 4) / (2 * (1 * 1)))))
    \<and> fst (AntiVortex (Fin 1) 1 (- 1) (Fin 3) (Fin 4) (Fin 0) ())
        = Vector (Fin (- (3 * of_int 1 / sqrt (3 * 3 + 4 * 4))))
                 (Fin (4 * of_int 1 / sqrt (3 * 3 + 4 * 4)))
                 (Fin (1.5 * of_int (- 1) * exp (- (3 * 3 + 4 * 4) / (2 * (1 * 1)))))
    \<and> fst (NeelSkyrmion (Fin 1) (- 1) (- 1) (Fin 3) (Fin 4) (Fin 0) ())
        = Vector (Fin (3 * of_int (- 1) / sqrt (3 * 3 + 4 * 4)
                       * (1 - \<bar>skyrmion_mz 1 (- 1) 3 4\<bar>)))
                 (Fin (4 * of_int (- 1) / sqrt (3 * 3 + 4 * 4)
                       * (1 - \<bar>skyrmion_mz 1 (- 1) 3 4\<bar>)))
                 (Fin (skyrmion_mz 1 (- 1) 3 4))
    \<and> fst (BlochSkyrmion (Fin 1) (- 1) (- 1) (Fin 3) (Fin 4) (Fin 0) ())
        = Vector (Fin (- (4 * of_int (- 1) / sqrt (3 * 3 + 4 * 4))
                       * (1 - \<bar>skyrmion_mz 1 (- 1) 3 4\<bar>)))
                 (Fin (3 * of_int (- 1) / sqrt (3 * 3 + 4 * 4)
                       * (1 - \<bar>skyrmion_mz 1 (- 1) 3 4\<bar>)))
                 (Fin (skyrmion_mz 1 (- 1) 3 4))
    \<and> X (fst (Vortex (Fin 1) 1 (- 1) (Fin 3) (Fin 4) (Fin 0) ()))
        * X (fst (Vortex (Fin 1) 1 (- 1) (Fin 3) (Fin 4) (Fin 0) ()))
      + Y (fst (Vortex (Fin 1) 1 (- 1) (Fin 3) (Fin 4) (Fin 0) ()))
        * Y (fst (Vortex (Fin 1) 1 (- 1) (Fin 3) (Fin 4) (Fin 0) ())) = Fin 1
    \<and> sq_norm (fst (Vortex (Fin 1) 1 (- 1) (Fin 3) (Fin 4) (Fin 0) ()))
        = Fin (1 + (1.5 * exp (- (3 * 3 + 4 * 4) / (2 * (1 * 1))))\<^sup>2)
    \<and> sq_norm (fst (Vortex (Fin 1) 1 (- 1) (Fin 3) (Fin 4) (Fin 0) ())) \<noteq> Fin 1
    \<and> X (fst (AntiVortex (Fin 1) 1 (- 1) (Fin 3) (Fin 4) (Fin 0) ()))
        * X (fst (AntiVortex (Fin 1) 1 (- 1) (Fin 3) (Fin 4) (Fin 0) ()))
      + Y (fst (AntiVortex (Fin 1) 1 (- 1) (Fin 3) (Fin 4) (Fin 0) ()))
        * Y (fst (AntiVortex (Fin 1) 1 (- 1) (Fin 3) (Fin 4) (Fin 0) ())) = Fin 1
    \<and> sq_norm (fst (AntiVortex (Fin 1) 1 (- 1) (Fin 3) (Fin 4) (Fin 0) ()))
        = Fin (1 + (1.5 * exp (- (3 * 3 + 4 * 4) / (2 * (1 * 1))))\<^sup>2)
    \<and> sq_norm (fst (AntiVortex (Fin 1) 1 (- 1) (Fin 3) (Fin 4) (Fin 0) ())) \<noteq> Fin 1
    \<and> X (fst (NeelSkyrmion (Fin 1) (- 1) (- 1) (Fin 3) (Fin 4) (Fin 0) ()))
        * X (fst (NeelSkyrmion (Fin 1) (- 1) (- 1) (Fin 3) (Fin 4) (Fin 0) ()))
      + Y (fst (NeelSkyrmion (Fin 1) (- 1) (- 1) (Fin 3) (Fin 4) (Fin 0) ()))
        * Y (fst (NeelSkyrmion (Fin 1) (- 1) (- 1) (Fin 3) (Fin 4) (Fin 0) ()))
        = Fin ((1 - \<bar>skyrmion_mz 1 (- 1) 3 4\<bar>)\<^sup>2)
    \<and> sq_norm (fst (NeelSkyrmion (Fin 1) (- 1) (- 1) (Fin 3) (Fin 4) (Fin 0) ()))
        = Fin ((1 - \<bar>skyrmion_mz 1 (- 1) 3 4\<bar>)\<^sup>2 + (skyrmion_mz 1 (- 1) 3 4)\<^sup>2)
    \<and> X (fst (BlochSkyrmion (Fin 1) (- 1) (- 1) (Fin 3) (Fin 4) (Fin 0) ()))
        * X (fst (BlochSkyrmion (Fin 1) (- 1) (- 1) (Fin 3) (Fin 4) (Fin 0) ()))
      + Y (fst (BlochSkyrmion (Fin 1) (- 1) (- 1) (Fin 3) (Fin 4) (Fin 0) ()))
        * Y (fst (BlochSkyrmion (Fin 1) (- 1) (- 1) (Fin 3) (Fin 4) (Fin 0) ()))
        = Fin ((1 - \<bar>skyrmion_mz 1 (- 1) 3 4\<bar>)\<^sup>2)
    \<and> sq_norm (fst (BlochSkyrmion (Fin 1) (- 1) (- 1) (Fin 3) (Fin 4) (Fin 0) ()))
        = Fin ((1 - \<bar>skyrmion_mz 1 (- 1) 3 4\<bar>)\<^sup>2 + (skyrmion_mz 1 (- 1) 3 4)\<^sup>2)
    \<and> sq_norm (fst (HelicalMag (Fin 2) (Fin 1) (Fin 1) (Fin 0) (Fin 0) (Fin 0) ())) = Fin 1"
proof -
  have h: "(1::real) \<noteq> 0" "(3::real) \<noteq> 0" "(2::real) \<noteq> 0"
          "(1::int) = 1 \<or> (1::int) = - 1" "(- 1::int) = 1 \<or> (- 1::int) = - 1"
    by simp_all
  show ?thesis
    using h generators_sq_norm [where cs = 1 and x = 3 and y = 4 and circ = 1 and pol = "- 1"
        and charge = "- 1" and qx = 1 and qy = 1 and Ld = 2 and hx = 0 and hy = 0
        and z = "Fin 0" and hz = "Fin 0" and s = "()"]
    by blast
qed

text \<open>
  C1, as stated, fails for the vortex: with cell size \<open>1\<close>, circulation and polarization
  \<open>1\<close>, the vector at \<open>(1, 0, 0)\<close> is \<open>(0, 1, 1.5 * exp (- 1/2))\<close>. It is not the fallback
  vector \<open>(0, 0, 1)\<close> and its length is not \<open>1\<close>.
\<close>

theorem Vortex_unit_norm_counterexample:
  "fst (Vortex (Fin 1) 1 1 (Fin 1) (Fin 0) (Fin 0) ())
     = Vector (Fin 0) (Fin 1) (Fin (1.5 * exp (- 1 / 2)))
   \<and> fst (Vortex (Fin 1) 1 1 (Fin 1) (Fin 0) (Fin 0) ()) \<noteq> Vector (Fin 0) (Fin 0) (Fin 1)
   \<and> euclid_norm (fst (Vortex (Fin 1) 1 1 (Fin 1) (Fin 0) (Fin 0) ())) \<noteq> Fin 1"
  by (simp add: Vortex_def Let_def sqr64_def float64_of_int_def noNaN_def euclid_norm_def
        sq_norm_def)

text \<open>
  C2. At \<open>(0, 0, z)\<close>, for every \<open>z\<close>, every circulation or charge, every polarization
  (so for \<open>1\<close> and \<open>-1\<close>) and every cell size, \<^verbatim>\<open>Vortex\<close>, \<^verbatim>\<open>AntiVortex\<close>,
  \<^verbatim>\<open>NeelSkyrmion\<close> and \<^verbatim>\<open>BlochSkyrmion\<close> return exactly \<open>(0, 0, pol)\<close>: the in-plane
  component is \<^verbatim>\<open>0/0\<close>, not a number, and \<^verbatim>\<open>noNaN\<close> replaces the vector.
\<close>

theorem origin_fallback:
  "Vortex cellSizeX circ pol (Fin 0) (Fin 0) z s
     = (Vector (Fin 0) (Fin 0) (Fin (of_int pol)), s)
   \<and> AntiVortex cellSizeX circ pol (Fin 0) (Fin 0) z s
     = (Vector (Fin 0) (Fin 0) (Fin (of_int pol)), s)
   \<and> NeelSkyrmion cellSizeX charge pol (Fin 0) (Fin 0) z s
     = (Vector (Fin 0) (Fin 0) (Fin (of_int pol)), s)
   \<and> BlochSkyrmion cellSizeX charge pol (Fin 0) (Fin 0) z s
     = (Vector (Fin 0) (Fin 0) (Fin (of_int pol)), s)"
  by (simp add: Vortex_def AntiVortex_def NeelSkyrmion_def BlochSkyrmion_def Let_def
        noNaN_def float64_of_int_def)

section \<open>The two-domain configuration\<close>

text \<open>
  C9. For every nine finite domain and wall parameters and a cell size other than zero,
  \<^verbatim>\<open>TwoDomain\<close> at a position with \<open>x = 0\<close> returns exactly the wall vector
  \<open>(mxwall, mywall, mzwall)\<close>: the Gaussian weight \<open>exp (- (x / ww)\<^sup>2)\<close> is \<open>1\<close> there and
  \<open>(1 - g) * domain + g * wall\<close> loses the domain term.
\<close>

theorem TwoDomain_wall_at_zero:
  assumes "cs \<noteq> 0"
  shows "TwoDomain (Fin cs) (Fin mx1) (Fin my1) (Fin mz1) (Fin mxwall) (Fin mywall) (Fin mzwall)
           (Fin mx2) (Fin my2) (Fin mz2) (Fin 0) y z s
         = (Vector (Fin mxwall) (Fin mywall) (Fin mzwall), s)"
  using assms by (simp add: TwoDomain_def Let_def sqr64_def)

theorem TwoDomain_wall_at_zero_witness:
  "(5::real) \<noteq> 0
   \<and> TwoDomain (Fin 5) (Fin 1) (Fin 0) (Fin 0) (Fin 0) (Fin 1) (Fin 0)
        (Fin (- 1)) (Fin 0) (Fin 0) (Fin 0) (Fin 3) (Fin 4) ()
      = (Vector (Fin 0) (Fin 1) (Fin 0), ())"
proof -
  have h: "(5::real) \<noteq> 0" by simp
  show ?thesis
    using h TwoDomain_wall_at_zero [OF h, of 1 0 0 0 1 0 "- 1" 0 0 "Fin 3" "Fin 4" "()"]
    by simp
qed

section \<open>Combinators\<close>

lemma RotZ_Fin:
  assumes "c (Fin (x * cos t + y * sin t)) (Fin (- x * sin t + y * cos t)) z s
           = (Vector (Fin a) (Fin b) mz, s')"
  shows "RotZ c (Fin t) (Fin x) (Fin y) z s
         = (Vector (Fin (a * cos t - b * sin t)) (Fin (a * sin t + b * cos t)) mz, s')"
  using assms by (simp add: RotZ_def Let_def)

text \<open>Rotating a point by \<open>- t\<close> and then by \<open>t\<close> gives the point back.\<close>

lemma rot_x:
  fixes x y t :: real
  shows "(x * cos (- t) + y * sin (- t)) * cos t + (- x * sin (- t) + y * cos (- t)) * sin t = x"
proof -
  have "(x * cos t - y * sin t) * cos t + (x * sin t + y * cos t) * sin t = x"
    using sin_cos_squared_add[of t] unfolding power2_eq_square by algebra
  then show ?thesis by simp
qed

lemma rot_y:
  fixes x y t :: real
  shows "- (x * cos (- t) + y * sin (- t)) * sin t + (- x * sin (- t) + y * cos (- t)) * cos t = y"
proof -
  have "- (x * cos t - y * sin t) * sin t + (x * sin t + y * cos t) * cos t = y"
    using sin_cos_squared_add[of t] unfolding power2_eq_square by algebra
  then show ?thesis by simp
qed

lemma rot_back_x:
  fixes a b t :: real
  shows "(a * cos t - b * sin t) * cos (- t) - (a * sin t + b * cos t) * sin (- t) = a"
proof -
  have "(a * cos t - b * sin t) * cos t + (a * sin t + b * cos t) * sin t = a"
    using sin_cos_squared_add[of t] unfolding power2_eq_square by algebra
  then show ?thesis by simp
qed

lemma rot_back_y:
  fixes a b t :: real
  shows "(a * cos t - b * sin t) * sin (- t) + (a * sin t + b * cos t) * cos (- t) = b"
proof -
  have "- ((a * cos t - b * sin t) * sin t) + (a * sin t + b * cos t) * cos t = b"
    using sin_cos_squared_add[of t] unfolding power2_eq_square by algebra
  then show ?thesis by simp
qed

text \<open>
  C7. For every field \<open>f\<close>, every angle \<open>\<theta>\<close> and every point, rotating by \<open>\<theta>\<close> and then
  by \<open>- \<theta>\<close> returns the value of \<open>f\<close> at the point, exactly, in real arithmetic: the
  angle, the in-plane coordinates and the in-plane components of the value of \<open>f\<close> are
  finite numbers. The third coordinate and the third component pass through, whatever
  they are, and so does the state that \<open>f\<close> has changed.
\<close>

theorem RotZ_round_trip:
  assumes f: "f (Fin x) (Fin y) z s = (Vector (Fin mx) (Fin my) mz, s')"
  shows "RotZ (RotZ f (Fin \<theta>)) (- Fin \<theta>) (Fin x) (Fin y) z s = f (Fin x) (Fin y) z s"
proof -
  let ?x1 = "x * cos (- \<theta>) + y * sin (- \<theta>)"
  let ?y1 = "- x * sin (- \<theta>) + y * cos (- \<theta>)"
  have "f (Fin (?x1 * cos \<theta> + ?y1 * sin \<theta>)) (Fin (- ?x1 * sin \<theta> + ?y1 * cos \<theta>)) z s
        = (Vector (Fin mx) (Fin my) mz, s')"
    by (simp only: rot_x rot_y f)
  then have inner: "RotZ f (Fin \<theta>) (Fin ?x1) (Fin ?y1) z s
        = (Vector (Fin (mx * cos \<theta> - my * sin \<theta>)) (Fin (mx * sin \<theta> + my * cos \<theta>)) mz, s')"
    by (rule RotZ_Fin[where c = f and t = \<theta>])
  have "RotZ (RotZ f (Fin \<theta>)) (Fin (- \<theta>)) (Fin x) (Fin y) z s
        = (Vector
             (Fin ((mx * cos \<theta> - my * sin \<theta>) * cos (- \<theta>)
                   - (mx * sin \<theta> + my * cos \<theta>) * sin (- \<theta>)))
             (Fin ((mx * cos \<theta> - my * sin \<theta>) * sin (- \<theta>)
                   + (mx * sin \<theta> + my * cos \<theta>) * cos (- \<theta>))) mz, s')"
    by (rule RotZ_Fin[where c = "RotZ f (Fin \<theta>)" and t = "- \<theta>" and x = x and y = y, OF inner])
  then have "RotZ (RotZ f (Fin \<theta>)) (Fin (- \<theta>)) (Fin x) (Fin y) z s
        = (Vector (Fin mx) (Fin my) mz, s')"
    by (simp only: rot_back_x rot_back_y)
  then show ?thesis by (simp add: f)
qed

theorem RotZ_round_trip_witness:
  "Vortex (Fin 1) 1 1 (Fin 3) (Fin 4) (Fin 6) ()
     = (Vector (Fin (- (4 * of_int 1 / sqrt (3 * 3 + 4 * 4))))
               (Fin (3 * of_int 1 / sqrt (3 * 3 + 4 * 4)))
               (Fin (1.5 * of_int 1 * exp (- (3 * 3 + 4 * 4) / (2 * (1 * 1))))), ())
   \<and> RotZ (RotZ (Vortex (Fin 1) 1 1) (Fin 7)) (- Fin 7) (Fin 3) (Fin 4) (Fin 6) ()
     = Vortex (Fin 1) 1 1 (Fin 3) (Fin 4) (Fin 6) ()"
proof -
  have h: "Vortex (Fin 1) 1 1 (Fin 3) (Fin 4) (Fin 6) ()
     = (Vector (Fin (- (4 * of_int 1 / sqrt (3 * 3 + 4 * 4))))
               (Fin (3 * of_int 1 / sqrt (3 * 3 + 4 * 4)))
               (Fin (1.5 * of_int 1 * exp (- (3 * 3 + 4 * 4) / (2 * (1 * 1))))), ())"
    by (rule Vortex_Fin) simp_all
  show ?thesis
    using h RotZ_round_trip [where f = "Vortex (Fin 1) 1 1" and x = 3 and y = 4
        and z = "Fin 6" and s = "()" and \<theta> = 7, OF h]
    by blast
qed

text \<open>
  C8. For every field \<open>g\<close> whose value at the point is finite, the superposition
  \<^verbatim>\<open>Uniform(1, 0, 0).Add(0.0, g)\<close> at the point is the vector \<open>(1, 0, 0)\<close>: \<^verbatim>\<open>Add\<close> computes
  \<open>field(p) + weight * other(p)\<close> component by component, and the weight \<open>0\<close> removes
  the second term.
\<close>

theorem Add_zero_weight:
  assumes "fst (g x y z s) = Vector (Fin a) (Fin b) (Fin c)"
  shows "fst (Add (Uniform (Fin 1) (Fin 0) (Fin 0)) (Fin 0) g x y z s)
         = Vector (Fin 1) (Fin 0) (Fin 0)"
  using assms by (auto simp add: Add_def Uniform_def MAdd_def split: prod.splits)

theorem Add_zero_weight_witness:
  "fst (Uniform (Fin 2) (Fin (- 3)) (Fin 5) (Fin 4) (Fin 5) (Fin 6) ())
     = Vector (Fin 2) (Fin (- 3)) (Fin 5)
   \<and> fst (Add (Uniform (Fin 1) (Fin 0) (Fin 0)) (Fin 0) (Uniform (Fin 2) (Fin (- 3)) (Fin 5))
            (Fin 4) (Fin 5) (Fin 6) ())
     = Vector (Fin 1) (Fin 0) (Fin 0)"
proof -
  have h: "fst (Uniform (Fin 2) (Fin (- 3)) (Fin 5) (Fin 4) (Fin 5) (Fin 6) ())
           = Vector (Fin 2) (Fin (- 3)) (Fin 5)"
    by (simp add: Uniform_def)
  show ?thesis
    using h Add_zero_weight [where g = "Uniform (Fin 2) (Fin (- 3)) (Fin 5)" and x = "Fin 4"
        and y = "Fin 5" and z = "Fin 6" and s = "()", OF h]
    by simp
qed

section \<open>Random configurations\<close>

lemma sample_randomDir:
  "length ps = length qs \<Longrightarrow>
   sample (\<lambda>x y z rng. randomDir R rng) ps rng = sample (\<lambda>x y z rng. randomDir R rng) qs rng"
proof (induction ps qs arbitrary: rng rule: list_induct2)
  case Nil
  show ?case by simp
next
  case (Cons p ps q qs)
  obtain x y z where p: "p = (x, y, z)" by (cases p) auto
  obtain x' y' z' where q: "q = (x', y', z')" by (cases q) auto
  show ?case
    using Cons.IH by (simp add: p q split: prod.splits)
qed

text \<open>
  C4. For every seed, two fields built by \<^verbatim>\<open>RandomMagSeed(seed)\<close> and called \<open>n\<close> times
  each, at any positions, possibly different ones in the two runs, return the same
  sequence of \<open>n\<close> vectors: the output depends on the seed and on the order of the calls,
  never on the position.
\<close>

theorem RandomMagSeed_ignores_position:
  assumes "length ps = length qs"
  shows "sample (fst (RandomMagSeed R seed)) ps (snd (RandomMagSeed R seed))
       = sample (fst (RandomMagSeed R seed)) qs (snd (RandomMagSeed R seed))"
  unfolding RandomMagSeed_def Let_def fst_conv snd_conv
  using assms by (rule sample_randomDir)

theorem RandomMagSeed_ignores_position_witness:
  "length [(Fin 0, Fin 0, Fin 0), (Fin 1, Fin 0, Fin 0)]
     = length [(Fin 5, Fin 6, Fin 7), (Fin 5, Fin 6, Fin 7)]
   \<and> sample
        (fst (RandomMagSeed
           \<lparr>NewSource = (\<lambda>n. n), Float64 = (\<lambda>r. (Fin (of_int (r mod 8) / 8), r + 3))\<rparr> 42))
        [(Fin 0, Fin 0, Fin 0), (Fin 1, Fin 0, Fin 0)]
        (snd (RandomMagSeed
           \<lparr>NewSource = (\<lambda>n. n), Float64 = (\<lambda>r. (Fin (of_int (r mod 8) / 8), r + 3))\<rparr> 42))
     = sample
        (fst (RandomMagSeed
           \<lparr>NewSource = (\<lambda>n. n), Float64 = (\<lambda>r. (Fin (of_int (r mod 8) / 8), r + 3))\<rparr> 42))
        [(Fin 5, Fin 6, Fin 7), (Fin 5, Fin 6, Fin 7)]
        (snd (RandomMagSeed
           \<lparr>NewSource = (\<lambda>n. n), Float64 = (\<lambda>r. (Fin (of_int (r mod 8) / 8), r + 3))\<rparr> 42))"
proof -
  have h: "length [(Fin 0, Fin 0, Fin 0), (Fin 1, Fin 0, Fin 0)]
         = length [(Fin 5, Fin 6, Fin 7), (Fin 5, Fin 6, Fin 7)]"
    by simp
  show ?thesis
    using h RandomMagSeed_ignores_position [OF h] by (intro conjI)
qed

section \<open>httpfs: Create\<close>

text \<open>
  C10. \<^verbatim>\<open>Create\<close> returns an error exactly when \<^verbatim>\<open>Touch\<close>, the empty append that creates
  the file, fails, and the error is the one \<^verbatim>\<open>Touch\<close> returned. The result of removing
  a file that was there before is dropped: whatever \<^verbatim>\<open>Remove\<close> answers, when \<^verbatim>\<open>Touch\<close>
  succeeds \<^verbatim>\<open>Create\<close> returns a writer on the URL.
\<close>

theorem Create_fails_iff_Touch_fails:
  "(fst (Create Remove Append url fs) = Inl e)
     = (fst (Touch Append url (snd (Remove url fs))) = Some e)
   \<and> (fst (Touch Append url (snd (Remove url fs))) = None \<longrightarrow>
        fst (Create Remove Append url fs)
          = Inr \<lparr>buf = bufio_NewWriterSize \<lparr>URL = url\<rparr> BUFSIZE\<rparr>)"
  by (auto simp add: Create_def split: prod.splits option.splits)

theorem Create_fails_iff_Touch_fails_witness:
  "fst ((\<lambda>u fs. (Some ''remove: no such file'', fs)) ''out/m.ovf'' ())
     = Some ''remove: no such file''
   \<and> fst (Touch (\<lambda>u b fs. (None, fs)) ''out/m.ovf''
           (snd ((\<lambda>u fs. (Some ''remove: no such file'', fs)) ''out/m.ovf'' ()))) = None
   \<and> fst (Create (\<lambda>u fs. (Some ''remove: no such file'', fs)) (\<lambda>u b fs. (None, fs))
           ''out/m.ovf'' ())
      = Inr \<lparr>buf = bufio_NewWriterSize \<lparr>URL = ''out/m.ovf''\<rparr> BUFSIZE\<rparr>"
  using Create_fails_iff_Touch_fails
    [of "\<lambda>u fs. (Some ''remove: no such file'', fs)" "\<lambda>u b fs. (None, fs)"
        "''out/m.ovf''" "()" "''x''"]
  by (simp add: Touch_def)

end
